theory Spec2Isabelle
  imports Main "HOL-Library.Word" "HOL-Library.AList"
begin

unbundle bit_operations_syntax

section \<open>Shared header: benchmark.h\<close>

type_synonym u32 = "32 word"
type_synonym u64 = "64 word"

text \<open>\<^verbatim>\<open>struct event\<close>: the record written to the ring buffer.\<close>

record event =
  timestamp :: u64
  pid :: u32
  cpu_id :: u32
  event_type :: u32
  data :: u32

text \<open>\<^verbatim>\<open>struct stats\<close>: the statistics record declared for hash maps.\<close>

record stats =
  count :: u64
  sum_latency :: u64
  min_latency :: u64
  max_latency :: u64

definition EVENT_TYPE_KPROBE :: u32 where
  "EVENT_TYPE_KPROBE = 1"

definition EVENT_TYPE_TRACEPOINT :: u32 where
  "EVENT_TYPE_TRACEPOINT = 2"

definition EVENT_TYPE_UPROBE :: u32 where
  "EVENT_TYPE_UPROBE = 3"

definition EVENT_TYPE_XDP :: u32 where
  "EVENT_TYPE_XDP = 4"

definition EVENT_TYPE_TC :: u32 where
  "EVENT_TYPE_TC = 5"

section \<open>Statistics records\<close>

text \<open>
  Modelled from the spec: the merge operation on \<^verbatim>\<open>struct stats\<close>. The header declares
  only the four 64-bit fields; no source file updates them. Section 3 of the specification
  gives the update as \<^verbatim>\<open>count += 1; sum += d; min = min(min, d); max = max(max, d)\<close>;
  the fields are unsigned 64-bit, so the additions wrap.
\<close>

definition stats_merge :: "stats \<Rightarrow> u64 \<Rightarrow> stats" where
  "stats_merge r d =
     \<lparr>count = count r + 1,
      sum_latency = sum_latency r + d,
      min_latency = min (min_latency r) d,
      max_latency = max (max_latency r) d\<rparr>"

text \<open>
  Modelled from the spec: the freshly initialised record, which no source file builds.
  Section 3 of the specification makes \<open>min_latency\<close> and \<open>max_latency\<close> a sentinel while
  \<open>count\<close> is 0. For the merge of section 3 to leave the least and the greatest latency,
  the sentinel of the minimum is the greatest 64-bit value and that of the maximum is 0.
\<close>

definition stats_fresh :: stats where
  "stats_fresh =
     \<lparr>count = 0, sum_latency = 0, min_latency = 0xFFFFFFFFFFFFFFFF, max_latency = 0\<rparr>"

text \<open>A sequence of merges, applied from left to right.\<close>

fun stats_merges :: "stats \<Rightarrow> u64 list \<Rightarrow> stats" where
  "stats_merges r [] = r"
| "stats_merges r (d # ds) = stats_merges (stats_merge r d) ds"

section \<open>Kernel environment and helpers\<close>

text \<open>
  The callbacks run in the kernel and reach it through helper functions that are not part
  of the repository. What a helper returns from outside the program's maps is a field of
  the environment of one invocation: the packed process identifiers, the clock (indexed by
  the number of earlier reads in the same invocation), the executing CPU, and the
  arguments found in the context.
\<close>

record kernel_env =
  current_pid_uid :: u64
  current_uid_gid :: u64
  ktime_ns :: "nat \<Rightarrow> u64"
  smp_processor_id :: u32
  regs_parm1 :: u64
  ctx_args :: "nat \<Rightarrow> u64"

definition E2BIG :: int where
  "E2BIG = 7"

definition ENOSPC :: int where
  "ENOSPC = 28"

text \<open>
  A ring buffer: the records submitted so far, oldest first, and the number of bytes that
  are reserved or not yet consumed. \<^verbatim>\<open>bpf_ringbuf_reserve\<close> charges a record its size plus
  a header of 8 bytes, rounded up to a multiple of 8, and returns no slot when the bytes
  in use would then reach \<open>max_entries\<close>; \<^verbatim>\<open>bpf_ringbuf_submit\<close> makes the filled
  record visible to the consumer.
\<close>

record 'e ringbuf =
  rb_committed :: "'e list"
  rb_used :: nat

definition BPF_RINGBUF_HDR_SZ :: nat where
  "BPF_RINGBUF_HDR_SZ = 8"

definition bpf_ringbuf_reserve :: "nat \<Rightarrow> 'e ringbuf \<Rightarrow> nat \<Rightarrow> 'e ringbuf option" where
  "bpf_ringbuf_reserve max_entries rb sz =
     (let len = ((sz + BPF_RINGBUF_HDR_SZ + 7) div 8) * 8 in
      if rb_used rb + len < max_entries then Some (rb\<lparr>rb_used := rb_used rb + len\<rparr>)
      else None)"

definition bpf_ringbuf_submit :: "'e \<Rightarrow> 'e ringbuf \<Rightarrow> 'e ringbuf" where
  "bpf_ringbuf_submit e rb = rb\<lparr>rb_committed := rb_committed rb @ [e]\<rparr>"

text \<open>
  An array map has the slots \<open>0 ..< max_entries\<close>, all of them always present;
  \<^verbatim>\<open>bpf_map_lookup_elem\<close> returns a null pointer for any other key.
\<close>

definition bpf_array_lookup :: "nat \<Rightarrow> (nat \<Rightarrow> u64) \<Rightarrow> u32 \<Rightarrow> u64 option" where
  "bpf_array_lookup max_entries m key =
     (if unat key < max_entries then Some (m (unat key)) else None)"

text \<open>
  A hash map is an association list of at most \<open>max_entries\<close> keys.
  \<^verbatim>\<open>bpf_map_update_elem\<close> with \<^verbatim>\<open>BPF_ANY\<close> overwrites the value of a present key and
  inserts an absent one; inserting into a full map fails with \<^verbatim>\<open>-E2BIG\<close> and changes
  nothing.
\<close>

definition bpf_hash_lookup :: "('k \<times> 'v) list \<Rightarrow> 'k \<Rightarrow> 'v option" where
  "bpf_hash_lookup m key = map_of m key"

definition bpf_hash_update :: "nat \<Rightarrow> ('k \<times> 'v) list \<Rightarrow> 'k \<Rightarrow> 'v \<Rightarrow> int \<times> ('k \<times> 'v) list" where
  "bpf_hash_update max_entries m key v =
     (if map_of m key = None \<and> max_entries \<le> length m then (- E2BIG, m)
      else (0, AList.update key v m))"

text \<open>
  A per-CPU hash map keeps one value per CPU under each key. A lookup gives the executing
  CPU's value; an update from a program writes the executing CPU's value, and a newly
  inserted key starts with zero on the other CPUs.
\<close>

definition bpf_percpu_hash_lookup :: "('k \<times> (nat \<Rightarrow> u64)) list \<Rightarrow> nat \<Rightarrow> 'k \<Rightarrow> u64 option" where
  "bpf_percpu_hash_lookup m cpu key = map_option (\<lambda>f. f cpu) (map_of m key)"

definition bpf_percpu_hash_update ::
  "nat \<Rightarrow> ('k \<times> (nat \<Rightarrow> u64)) list \<Rightarrow> nat \<Rightarrow> 'k \<Rightarrow> u64 \<Rightarrow> int \<times> ('k \<times> (nat \<Rightarrow> u64)) list" where
  "bpf_percpu_hash_update max_entries m cpu key v =
     (case map_of m key of
        Some f \<Rightarrow> (0, AList.update key (f(cpu := v)) m)
      | None \<Rightarrow>
          if max_entries \<le> length m then (- E2BIG, m)
          else (0, AList.update key ((\<lambda>_. 0)(cpu := v)) m))"

text \<open>
  A perf event array holds one buffer per CPU index below \<open>max_entries\<close>; user space
  fixes each buffer's capacity. \<^verbatim>\<open>bpf_perf_event_output\<close> copies the record into the
  buffer of the given index and returns 0, or returns a negative error and stores nothing
  when the index is out of range or the buffer has no room.
\<close>

record 'e perfbuf =
  pb_records :: "'e list"
  pb_capacity :: nat

definition bpf_perf_event_output ::
  "nat \<Rightarrow> (nat \<Rightarrow> 'e perfbuf) \<Rightarrow> nat \<Rightarrow> 'e \<Rightarrow> int \<times> (nat \<Rightarrow> 'e perfbuf)" where
  "bpf_perf_event_output max_entries bufs index ev =
     (if max_entries \<le> index then (- E2BIG, bufs)
      else if pb_capacity (bufs index) \<le> length (pb_records (bufs index)) then (- ENOSPC, bufs)
      else (0, bufs(index := (bufs index)\<lparr>pb_records := pb_records (bufs index) @ [ev]\<rparr>)))"

text \<open>
  The counter update that ends every throughput callback: look the slot up and, when the
  pointer is not null, add 1 to it in place.
\<close>

definition COUNTERS_MAX_ENTRIES :: nat where
  "COUNTERS_MAX_ENTRIES = 10"

definition update_counter :: "(nat \<Rightarrow> u64) \<Rightarrow> u32 \<Rightarrow> (nat \<Rightarrow> u64)" where
  "update_counter cs key =
     (case bpf_array_lookup COUNTERS_MAX_ENTRIES cs key of
        None \<Rightarrow> cs
      | Some v \<Rightarrow> cs(unat key := v + 1))"

section \<open>ringbuf\_throughput.c\<close>

definition RINGBUF_EVENTS_MAX_ENTRIES :: nat where
  "RINGBUF_EVENTS_MAX_ENTRIES = 256 * 1024"

definition sizeof_event :: nat where
  "sizeof_event = 24"

record ringbuf_state =
  ringbuf_events :: "event ringbuf"
  counters :: "nat \<Rightarrow> u64"

definition kprobe_openat :: "kernel_env \<Rightarrow> ringbuf_state \<Rightarrow> int \<times> ringbuf_state" where
  "kprobe_openat env s =
     (let zero = (0 :: u32) in
      case bpf_ringbuf_reserve RINGBUF_EVENTS_MAX_ENTRIES (ringbuf_events s) sizeof_event of
        None \<Rightarrow> (1, s)
      | Some rb \<Rightarrow>
          let e = \<lparr>timestamp = ktime_ns env 0,
                   pid = ucast (drop_bit 32 (current_uid_gid env)),
                   cpu_id = smp_processor_id env,
                   event_type = EVENT_TYPE_KPROBE,
                   data = ucast (regs_parm1 env)\<rparr>;
              s1 = s\<lparr>ringbuf_events := bpf_ringbuf_submit e rb\<rparr>
          in (0, s1\<lparr>counters := update_counter (counters s1) zero\<rparr>))"

definition tracepoint_openat :: "kernel_env \<Rightarrow> ringbuf_state \<Rightarrow> int \<times> ringbuf_state" where
  "tracepoint_openat env s =
     (let one = (1 :: u32) in
      case bpf_ringbuf_reserve RINGBUF_EVENTS_MAX_ENTRIES (ringbuf_events s) sizeof_event of
        None \<Rightarrow> (1, s)
      | Some rb \<Rightarrow>
          let e = \<lparr>timestamp = ktime_ns env 0,
                   pid = ucast (drop_bit 32 (current_uid_gid env)),
                   cpu_id = smp_processor_id env,
                   event_type = EVENT_TYPE_TRACEPOINT,
                   data = ucast (ctx_args env 1)\<rparr>;
              s1 = s\<lparr>ringbuf_events := bpf_ringbuf_submit e rb\<rparr>
          in (0, s1\<lparr>counters := update_counter (counters s1) one\<rparr>))"

definition raw_tracepoint_handler :: "kernel_env \<Rightarrow> ringbuf_state \<Rightarrow> int \<times> ringbuf_state" where
  "raw_tracepoint_handler env s =
     (let two = (2 :: u32) in
      case bpf_ringbuf_reserve RINGBUF_EVENTS_MAX_ENTRIES (ringbuf_events s) sizeof_event of
        None \<Rightarrow> (1, s)
      | Some rb \<Rightarrow>
          let e = \<lparr>timestamp = ktime_ns env 0,
                   pid = ucast (drop_bit 32 (current_uid_gid env)),
                   cpu_id = smp_processor_id env,
                   event_type = EVENT_TYPE_TRACEPOINT,
                   data = 0\<rparr>;
              s1 = s\<lparr>ringbuf_events := bpf_ringbuf_submit e rb\<rparr>
          in (0, s1\<lparr>counters := update_counter (counters s1) two\<rparr>))"

text \<open>The three producers of the file, as the dispatcher sees them.\<close>

datatype ringbuf_producer = Kprobe_openat | Tracepoint_openat | Raw_tracepoint_handler

fun ringbuf_on_event :: "ringbuf_producer \<Rightarrow> kernel_env \<Rightarrow> ringbuf_state \<Rightarrow> int \<times> ringbuf_state" where
  "ringbuf_on_event Kprobe_openat = kprobe_openat"
| "ringbuf_on_event Tracepoint_openat = tracepoint_openat"
| "ringbuf_on_event Raw_tracepoint_handler = raw_tracepoint_handler"

section \<open>perfbuf\_throughput.c\<close>

definition PERF_EVENTS_MAX_ENTRIES :: nat where
  "PERF_EVENTS_MAX_ENTRIES = 256"

record benchmark_perf_event =
  timestamp :: u64
  pid :: u32
  cpu_id :: u32
  event_type :: u32
  data :: u32

record perfbuf_state =
  perf_events :: "nat \<Rightarrow> benchmark_perf_event perfbuf"
  counters :: "nat \<Rightarrow> u64"

text \<open>
  \<^verbatim>\<open>BPF_F_CURRENT_CPU\<close> selects the buffer of the executing CPU. The result of
  \<^verbatim>\<open>bpf_perf_event_output\<close> is not read.
\<close>

definition kprobe_perf :: "kernel_env \<Rightarrow> perfbuf_state \<Rightarrow> int \<times> perfbuf_state" where
  "kprobe_perf env s =
     (let zero = (0 :: u32);
          event = \<lparr>timestamp = ktime_ns env 0,
                   pid = ucast (drop_bit 32 (current_uid_gid env)),
                   cpu_id = smp_processor_id env,
                   event_type = EVENT_TYPE_KPROBE,
                   data = ucast (regs_parm1 env)\<rparr>;
          s1 = s\<lparr>perf_events :=
                 snd (bpf_perf_event_output PERF_EVENTS_MAX_ENTRIES (perf_events s)
                        (unat (smp_processor_id env)) event)\<rparr>
      in (0, s1\<lparr>counters := update_counter (counters s1) zero\<rparr>))"

definition tracepoint_perf :: "kernel_env \<Rightarrow> perfbuf_state \<Rightarrow> int \<times> perfbuf_state" where
  "tracepoint_perf env s =
     (let one = (1 :: u32);
          event = \<lparr>timestamp = ktime_ns env 0,
                   pid = ucast (drop_bit 32 (current_uid_gid env)),
                   cpu_id = smp_processor_id env,
                   event_type = EVENT_TYPE_TRACEPOINT,
                   data = ucast (ctx_args env 1)\<rparr>;
          s1 = s\<lparr>perf_events :=
                 snd (bpf_perf_event_output PERF_EVENTS_MAX_ENTRIES (perf_events s)
                        (unat (smp_processor_id env)) event)\<rparr>
      in (0, s1\<lparr>counters := update_counter (counters s1) one\<rparr>))"

text \<open>The raw tracepoint variant fills its event and then only counts: nothing is output.\<close>

definition raw_tracepoint_perf :: "kernel_env \<Rightarrow> perfbuf_state \<Rightarrow> int \<times> perfbuf_state" where
  "raw_tracepoint_perf env s =
     (let two = (2 :: u32);
          event = \<lparr>timestamp = ktime_ns env 0,
                   pid = ucast (drop_bit 32 (current_uid_gid env)),
                   cpu_id = smp_processor_id env,
                   event_type = EVENT_TYPE_TRACEPOINT,
                   data = (0 :: u32)\<rparr>
      in (0, s\<lparr>counters := update_counter (counters s) two\<rparr>))"

datatype perfbuf_producer = Kprobe_perf | Tracepoint_perf | Raw_tracepoint_perf

fun perfbuf_on_event :: "perfbuf_producer \<Rightarrow> kernel_env \<Rightarrow> perfbuf_state \<Rightarrow> int \<times> perfbuf_state" where
  "perfbuf_on_event Kprobe_perf = kprobe_perf"
| "perfbuf_on_event Tracepoint_perf = tracepoint_perf"
| "perfbuf_on_event Raw_tracepoint_perf = raw_tracepoint_perf"

section \<open>map\_operations.c\<close>

text \<open>
  The capacities of the five maps are fixed when the maps are created; \<open>source_config\<close>
  holds the values that the file declares.
\<close>

record map_config =
  hash_map_max_entries :: nat
  array_map_max_entries :: nat
  percpu_array_max_entries :: nat
  percpu_hash_max_entries :: nat
  ringbuf_events_max_entries :: nat

definition source_config :: map_config where
  "source_config =
     \<lparr>hash_map_max_entries = 10240,
      array_map_max_entries = 256,
      percpu_array_max_entries = 256,
      percpu_hash_max_entries = 1024,
      ringbuf_events_max_entries = 256 * 1024\<rparr>"

record latency_event =
  timestamp_start :: u64
  timestamp_end :: u64
  operation :: u32
  pid :: u32

definition sizeof_latency_event :: nat where
  "sizeof_latency_event = 24"

record mapops_state =
  hash_map :: "(u32 \<times> u64) list"
  array_map :: "nat \<Rightarrow> u64"
  percpu_array :: "nat \<Rightarrow> nat \<Rightarrow> u64"
  percpu_hash :: "(u32 \<times> (nat \<Rightarrow> u64)) list"
  ringbuf_events :: "latency_event ringbuf"

text \<open>The key of every callback: \<^verbatim>\<open>(bpf_get_current_pid_uid() >> 32) & 0xFF\<close>.\<close>

definition map_key :: "kernel_env \<Rightarrow> u32" where
  "map_key env = ucast (drop_bit 32 (current_pid_uid env) AND 0xFF)"

text \<open>
  The tail that the five callbacks share: reserve a latency event, return 1 when there is
  no slot, otherwise fill the event, submit it and return 0.
\<close>

definition record_latency ::
  "map_config \<Rightarrow> kernel_env \<Rightarrow> u64 \<Rightarrow> u64 \<Rightarrow> u32 \<Rightarrow> mapops_state \<Rightarrow> int \<times> mapops_state" where
  "record_latency cfg env start end op s =
     (case bpf_ringbuf_reserve (ringbuf_events_max_entries cfg) (ringbuf_events s)
             sizeof_latency_event of
        None \<Rightarrow> (1, s)
      | Some rb \<Rightarrow>
          let e = \<lparr>timestamp_start = start,
                   timestamp_end = end,
                   operation = op,
                   pid = ucast (drop_bit 32 (current_pid_uid env))\<rparr>
          in (0, s\<lparr>ringbuf_events := bpf_ringbuf_submit e rb\<rparr>))"

definition hash_map_lookup :: "map_config \<Rightarrow> kernel_env \<Rightarrow> mapops_state \<Rightarrow> int \<times> mapops_state" where
  "hash_map_lookup cfg env s =
     (let key = map_key env;
          start = ktime_ns env 0;
          val = bpf_hash_lookup (hash_map s) key;
          end = ktime_ns env 1
      in record_latency cfg env start end 0 s)"

text \<open>
  The callback \<^verbatim>\<open>hash_map_update\<close>; the suffix keeps its name apart from the update
  function of the record field \<open>hash_map\<close>. The result of \<^verbatim>\<open>bpf_map_update_elem\<close>
  is not read.
\<close>

definition hash_map_update_cb :: "map_config \<Rightarrow> kernel_env \<Rightarrow> mapops_state \<Rightarrow> int \<times> mapops_state" where
  "hash_map_update_cb cfg env s =
     (let key = map_key env;
          val = ktime_ns env 0;
          start = ktime_ns env 1;
          s1 = s\<lparr>hash_map :=
                 snd (bpf_hash_update (hash_map_max_entries cfg) (hash_map s) key val)\<rparr>;
          end = ktime_ns env 2
      in record_latency cfg env start end 1 s1)"

definition array_map_benchmark :: "map_config \<Rightarrow> kernel_env \<Rightarrow> mapops_state \<Rightarrow> int \<times> mapops_state" where
  "array_map_benchmark cfg env s =
     (let key = map_key env;
          start = ktime_ns env 0;
          s1 = (case bpf_array_lookup (array_map_max_entries cfg) (array_map s) key of
                  Some v \<Rightarrow> s\<lparr>array_map := (array_map s)(unat key := v + 1)\<rparr>
                | None \<Rightarrow> s);
          end = ktime_ns env 1
      in record_latency cfg env start end 2 s1)"

definition percpu_array_benchmark :: "map_config \<Rightarrow> kernel_env \<Rightarrow> mapops_state \<Rightarrow> int \<times> mapops_state" where
  "percpu_array_benchmark cfg env s =
     (let key = map_key env;
          cpu = unat (smp_processor_id env);
          start = ktime_ns env 0;
          s1 = (case bpf_array_lookup (percpu_array_max_entries cfg) (percpu_array s cpu) key of
                  Some v \<Rightarrow> s\<lparr>percpu_array := (percpu_array s)(cpu := (percpu_array s cpu)(unat key := v + 1))\<rparr>
                | None \<Rightarrow> s);
          end = ktime_ns env 1
      in record_latency cfg env start end 3 s1)"

definition percpu_hash_benchmark :: "map_config \<Rightarrow> kernel_env \<Rightarrow> mapops_state \<Rightarrow> int \<times> mapops_state" where
  "percpu_hash_benchmark cfg env s =
     (let key = map_key env;
          cpu = unat (smp_processor_id env);
          start = ktime_ns env 0;
          s1 = (case bpf_percpu_hash_lookup (percpu_hash s) cpu key of
                  None \<Rightarrow>
                    let init_val = 1 in
                    s\<lparr>percpu_hash :=
                        snd (bpf_percpu_hash_update (percpu_hash_max_entries cfg) (percpu_hash s)
                               cpu key init_val)\<rparr>
                | Some v \<Rightarrow>
                    s\<lparr>percpu_hash :=
                        AList.map_entry key (\<lambda>f. f(cpu := v + 1)) (percpu_hash s)\<rparr>);
          end = ktime_ns env 1
      in record_latency cfg env start end 4 s1)"

datatype map_producer =
  Hash_map_lookup | Hash_map_update | Array_map_benchmark | Percpu_array_benchmark
  | Percpu_hash_benchmark

fun map_on_event :: "map_producer \<Rightarrow> map_config \<Rightarrow> kernel_env \<Rightarrow> mapops_state \<Rightarrow> int \<times> mapops_state" where
  "map_on_event Hash_map_lookup = hash_map_lookup"
| "map_on_event Hash_map_update = hash_map_update_cb"
| "map_on_event Array_map_benchmark = array_map_benchmark"
| "map_on_event Percpu_array_benchmark = percpu_array_benchmark"
| "map_on_event Percpu_hash_benchmark = percpu_hash_benchmark"

section \<open>Reachable states and example invocations\<close>

text \<open>The state of each object file right after loading: empty maps and empty buffers.\<close>

definition ringbuf_init :: ringbuf_state where
  "ringbuf_init =
     \<lparr>ringbuf_state.ringbuf_events = \<lparr>rb_committed = [], rb_used = 0\<rparr>,
      ringbuf_state.counters = (\<lambda>_. 0)\<rparr>"

definition perfbuf_init :: "nat \<Rightarrow> perfbuf_state" where
  "perfbuf_init capacity =
     \<lparr>perf_events = (\<lambda>_. \<lparr>pb_records = [], pb_capacity = capacity\<rparr>),
      perfbuf_state.counters = (\<lambda>_. 0)\<rparr>"

definition mapops_init :: mapops_state where
  "mapops_init =
     \<lparr>hash_map = [],
      array_map = (\<lambda>_. 0),
      percpu_array = (\<lambda>_ _. 0),
      percpu_hash = [],
      ringbuf_events = \<lparr>rb_committed = [], rb_used = 0\<rparr>\<rparr>"

text \<open>The same states with a ring buffer whose bytes are all in use.\<close>

definition ringbuf_full :: ringbuf_state where
  "ringbuf_full =
     ringbuf_init\<lparr>ringbuf_state.ringbuf_events :=
       \<lparr>rb_committed = [], rb_used = RINGBUF_EVENTS_MAX_ENTRIES\<rparr>\<rparr>"

definition mapops_full :: mapops_state where
  "mapops_full =
     mapops_init\<lparr>ringbuf_events :=
       \<lparr>rb_committed = [], rb_used = ringbuf_events_max_entries source_config\<rparr>\<rparr>"

text \<open>
  The hash maps are written by the callbacks only, under keys that went through the mask:
  in every state that the callbacks reach from the initial one, the keys of both hash maps
  are distinct and at most 255.
\<close>

definition keys_ok :: "(u32 \<times> 'v) list \<Rightarrow> bool" where
  "keys_ok m = (distinct (map fst m) \<and> list_all (\<lambda>k. k \<le> 0xFF) (map fst m))"

definition mapops_inv :: "mapops_state \<Rightarrow> bool" where
  "mapops_inv s = (keys_ok (hash_map s) \<and> keys_ok (percpu_hash s))"

text \<open>
  An invocation on CPU 0 by the process \<open>p\<close>, with a clock that advances by one
  nanosecond per read, starting at 10.
\<close>

definition example_env :: "u64 \<Rightarrow> kernel_env" where
  "example_env p =
     \<lparr>current_pid_uid = push_bit 32 p,
      current_uid_gid = push_bit 32 1000,
      ktime_ns = (\<lambda>n. 10 + of_nat n),
      smp_processor_id = 0,
      regs_parm1 = 7,
      ctx_args = (\<lambda>_. 64)\<rparr>"

text \<open>A dispatcher that fires one map producer once per environment, in order.\<close>

fun map_on_events ::
  "map_producer \<Rightarrow> map_config \<Rightarrow> kernel_env list \<Rightarrow> mapops_state \<Rightarrow> int list \<times> mapops_state" where
  "map_on_events p cfg [] s = ([], s)"
| "map_on_events p cfg (env # envs) s =
     (let (rc, s1) = map_on_event p cfg env s;
          (rcs, s2) = map_on_events p cfg envs s1
      in (rc # rcs, s2))"

text \<open>The clock does not go back between the reads of one invocation (at most three).\<close>

definition clock_monotonic :: "kernel_env \<Rightarrow> bool" where
  "clock_monotonic env =
     (ktime_ns env 0 \<le> ktime_ns env 1 \<and> ktime_ns env 1 \<le> ktime_ns env 2)"

text \<open>The latency events that one invocation of a map producer adds to the ring buffer.\<close>

definition submitted :: "map_producer \<Rightarrow> map_config \<Rightarrow> kernel_env \<Rightarrow> mapops_state \<Rightarrow> latency_event list" where
  "submitted p cfg env s =
     drop (length (rb_committed (ringbuf_events s)))
       (rb_committed (ringbuf_events (snd (map_on_event p cfg env s))))"

text \<open>
  The configuration of the capacity scenario: the declared capacities, but a hash map of
  four entries; and the state after one hash update each by the processes 0, 1, 2 and 3.
\<close>

definition small_config :: map_config where
  "small_config = source_config\<lparr>hash_map_max_entries := 4\<rparr>"

definition four_keys_state :: mapops_state where
  "four_keys_state =
     snd (map_on_events Hash_map_update small_config (map example_env [0, 1, 2, 3]) mapops_init)"

section \<open>Properties of the statistics record\<close>

lemma count_stats_merges:
  "count (stats_merges r ds) = count r + of_nat (length ds)"
  by (induction ds arbitrary: r) (simp_all add: stats_merge_def)

lemma sum_latency_stats_merges:
  "sum_latency (stats_merges r ds) = sum_latency r + sum_list ds"
  by (induction ds arbitrary: r) (simp_all add: stats_merge_def add.assoc)

lemma min_latency_stats_merges:
  "min_latency (stats_merges r ds) = fold min ds (min_latency r)"
  by (induction ds arbitrary: r) (simp_all add: stats_merge_def min.commute)

lemma max_latency_stats_merges:
  "max_latency (stats_merges r ds) = fold max ds (max_latency r)"
  by (induction ds arbitrary: r) (simp_all add: stats_merge_def max.commute)

lemma fold_min_Min: "fold min ds (m :: u64) = Min (insert m (set ds))"
  using Min.set_eq_fold [of m ds] by simp

lemma fold_max_Max: "fold max ds (m :: u64) = Max (insert m (set ds))"
  using Max.set_eq_fold [of m ds] by simp

lemma unat_sum_list: "unat (sum_list ds :: u64) = sum_list (map unat ds) mod 2 ^ 64"
proof (induction ds)
  case Nil
  then show ?case by simp
next
  case (Cons d ds)
  have "unat (d + sum_list ds) = (unat d + unat (sum_list ds)) mod 2 ^ 64"
    by (simp add: unat_word_ariths)
  also have "\<dots> = (unat d + sum_list (map unat ds) mod 2 ^ 64) mod 2 ^ 64"
    by (simp only: Cons.IH)
  also have "\<dots> = (unat d + sum_list (map unat ds)) mod 2 ^ 64"
    by (rule mod_add_right_eq)
  finally show ?case by simp
qed

lemma Min_sentinel:
  assumes "ds \<noteq> []"
  shows "Min (insert (0xFFFFFFFFFFFFFFFF :: u64) (set ds)) = Min (set ds)"
proof -
  have "Min (set ds) \<le> (- 1 :: u64)"
    by simp
  then have "min (- 1 :: u64) (Min (set ds)) = Min (set ds)"
    by (rule min.absorb2)
  moreover have "Min (insert (- 1 :: u64) (set ds)) = min (- 1) (Min (set ds))"
    using assms by (simp add: Min_insert)
  moreover have "(0xFFFFFFFFFFFFFFFF :: u64) = - 1"
    by simp
  ultimately show ?thesis by (simp only:)
qed

lemma Max_sentinel:
  assumes "ds \<noteq> []"
  shows "Max (insert (0 :: u64) (set ds)) = Max (set ds)"
proof -
  have "max (0 :: u64) (Max (set ds)) = Max (set ds)"
    by (rule max.absorb2) simp
  moreover have "Max (insert (0 :: u64) (set ds)) = max 0 (Max (set ds))"
    using assms by (simp add: Max_insert)
  ultimately show ?thesis by simp
qed

text \<open>
  C3. After the latencies \<open>ds\<close> have been merged into a freshly initialised record,
  \<open>count\<close> is their number and \<open>sum_latency\<close> is their sum, as 64-bit values, and as
  numbers whenever the number and the sum fit into 64 bits; when there is at least one
  latency, \<open>min_latency\<close> is the least and \<open>max_latency\<close> the greatest of them.
\<close>

theorem stats_merges_fields:
  "count (stats_merges stats_fresh ds) = of_nat (length ds) \<and>
   sum_latency (stats_merges stats_fresh ds) = sum_list ds \<and>
   (length ds < 2 ^ 64 \<longrightarrow> unat (count (stats_merges stats_fresh ds)) = length ds) \<and>
   (sum_list (map unat ds) < 2 ^ 64 \<longrightarrow>
      unat (sum_latency (stats_merges stats_fresh ds)) = sum_list (map unat ds)) \<and>
   (ds \<noteq> [] \<longrightarrow>
      min_latency (stats_merges stats_fresh ds) = Min (set ds) \<and>
      max_latency (stats_merges stats_fresh ds) = Max (set ds))"
proof (intro conjI impI)
  show c: "count (stats_merges stats_fresh ds) = of_nat (length ds)"
    by (simp add: count_stats_merges stats_fresh_def)
  show s: "sum_latency (stats_merges stats_fresh ds) = sum_list ds"
    by (simp add: sum_latency_stats_merges stats_fresh_def)
  show "unat (count (stats_merges stats_fresh ds)) = length ds" if "length ds < 2 ^ 64"
    using that by (simp add: c unat_of_nat)
  show "unat (sum_latency (stats_merges stats_fresh ds)) = sum_list (map unat ds)"
    if "sum_list (map unat ds) < 2 ^ 64"
    using that by (simp add: s unat_sum_list)
  show "min_latency (stats_merges stats_fresh ds) = Min (set ds)" if "ds \<noteq> []"
    using Min_sentinel [OF that]
    by (simp add: min_latency_stats_merges fold_min_Min stats_fresh_def)
  show "max_latency (stats_merges stats_fresh ds) = Max (set ds)" if "ds \<noteq> []"
    using Max_sentinel [OF that]
    by (simp add: max_latency_stats_merges fold_max_Max stats_fresh_def)
qed

theorem stats_merges_fields_witness:
  "[10, 30, 20 :: u64] \<noteq> [] \<and>
   length [10, 30, 20 :: u64] < 2 ^ 64 \<and>
   sum_list (map unat [10, 30, 20 :: u64]) < 2 ^ 64 \<and>
   unat (count (stats_merges stats_fresh [10, 30, 20])) = 3 \<and>
   unat (sum_latency (stats_merges stats_fresh [10, 30, 20])) = 60 \<and>
   min_latency (stats_merges stats_fresh [10, 30, 20]) = 10 \<and>
   max_latency (stats_merges stats_fresh [10, 30, 20]) = 30"
  using stats_merges_fields [of "[10, 30, 20]"] by simp

section \<open>Keys of the map benchmarks\<close>

lemma map_key_mask: "map_key env = ucast (drop_bit 32 (current_pid_uid env)) AND 0xFF"
  unfolding map_key_def by (simp add: unsigned_and_eq)

lemma map_key_le: "map_key env \<le> 0xFF"
  unfolding map_key_mask by (rule word_and_le1)

lemma unat_map_key: "unat (map_key env) \<le> 255"
  using map_key_le [of env] by (simp add: word_le_nat_alt)

lemma small_keys_subset: "{k :: u32. k \<le> 0xFF} \<subseteq> of_nat ` {..<256}"
proof
  fix k :: u32
  assume "k \<in> {k. k \<le> 0xFF}"
  then have "unat k < 256" by (simp add: word_le_nat_alt)
  moreover have "k = of_nat (unat k)" by simp
  ultimately show "k \<in> of_nat ` {..<256}" by blast
qed

lemma card_small_keys: "card {k :: u32. k \<le> 0xFF} \<le> 256"
proof -
  have "card {k :: u32. k \<le> 0xFF} \<le> card (of_nat ` {..<256 :: nat} :: u32 set)"
    by (rule card_mono) (simp_all add: small_keys_subset)
  also have "\<dots> \<le> card {..<256 :: nat}"
    by (rule card_image_le) simp
  finally show ?thesis by simp
qed

lemma keys_ok_length:
  assumes "keys_ok m"
  shows "length m \<le> 256"
proof -
  from assms have d: "distinct (map fst m)" and b: "set (map fst m) \<subseteq> {k. k \<le> 0xFF}"
    by (auto simp: keys_ok_def list_all_iff)
  have "length m = card (set (map fst m))"
    using distinct_card [OF d] by simp
  also have "\<dots> \<le> card {k :: u32. k \<le> 0xFF}"
    using b by (intro card_mono) simp_all
  finally show ?thesis using card_small_keys by simp
qed

lemma keys_ok_update:
  assumes "keys_ok m" and "k \<le> 0xFF"
  shows "keys_ok (AList.update k v m)"
  using assms
  by (auto simp: keys_ok_def list_all_iff distinct_update dom_update)

lemma keys_ok_map_entry:
  assumes "keys_ok m"
  shows "keys_ok (AList.map_entry k f m)"
  using assms
  by (auto simp: keys_ok_def list_all_iff distinct_map_entry dom_map_entry)

lemma keys_ok_hash_update:
  assumes "keys_ok m" and "k \<le> 0xFF"
  shows "keys_ok (snd (bpf_hash_update n m k v))"
  using assms by (simp add: bpf_hash_update_def keys_ok_update)

lemma keys_ok_percpu_hash_update:
  assumes "keys_ok m" and "k \<le> 0xFF"
  shows "keys_ok (snd (bpf_percpu_hash_update n m cpu k v))"
  using assms by (simp add: bpf_percpu_hash_update_def keys_ok_update split: option.split)

section \<open>The invariant of the map benchmarks\<close>

lemma record_latency_maps:
  "hash_map (snd (record_latency cfg env a b op s)) = hash_map s"
  "array_map (snd (record_latency cfg env a b op s)) = array_map s"
  "percpu_array (snd (record_latency cfg env a b op s)) = percpu_array s"
  "percpu_hash (snd (record_latency cfg env a b op s)) = percpu_hash s"
  by (simp_all add: record_latency_def split: option.split)

lemma mapops_inv_init: "mapops_inv mapops_init"
  by (simp add: mapops_inv_def mapops_init_def keys_ok_def)

lemma mapops_inv_on_event:
  assumes "mapops_inv s"
  shows "mapops_inv (snd (map_on_event p cfg env s))"
proof (cases p)
  case Hash_map_lookup
  with assms show ?thesis
    by (simp add: mapops_inv_def hash_map_lookup_def record_latency_maps)
next
  case Hash_map_update
  with assms show ?thesis
    by (simp add: mapops_inv_def hash_map_update_cb_def record_latency_maps Let_def
        keys_ok_hash_update map_key_le)
next
  case Array_map_benchmark
  with assms show ?thesis
    by (simp add: mapops_inv_def array_map_benchmark_def record_latency_maps Let_def
        split: option.split)
next
  case Percpu_array_benchmark
  with assms show ?thesis
    by (simp add: mapops_inv_def percpu_array_benchmark_def record_latency_maps Let_def
        split: option.split)
next
  case Percpu_hash_benchmark
  with assms show ?thesis
    by (simp add: mapops_inv_def percpu_hash_benchmark_def record_latency_maps Let_def
        keys_ok_percpu_hash_update keys_ok_map_entry map_key_le split: option.split)
qed

lemma mapops_inv_on_events:
  assumes "mapops_inv s"
  shows "mapops_inv (snd (map_on_events p cfg envs s))"
  using assms
proof (induction envs arbitrary: s)
  case Nil
  then show ?case by simp
next
  case (Cons env envs)
  from Cons.prems have "mapops_inv (snd (map_on_event p cfg env s))"
    by (rule mapops_inv_on_event)
  then have "mapops_inv (snd (map_on_events p cfg envs (snd (map_on_event p cfg env s))))"
    by (rule Cons.IH)
  then show ?case
    by (simp add: split_beta Let_def)
qed

section \<open>First touch in the per-CPU hash map\<close>

text \<open>
  C2. In every state that the callbacks reach, one invocation of the per-CPU hash producer
  leaves under its key, on the executing CPU, the value 1 when the lookup missed, and the
  value found plus 1 when it hit; no latency sample enters the stored value.
\<close>

theorem percpu_hash_first_touch:
  assumes "mapops_inv s"
  shows "bpf_percpu_hash_lookup
           (percpu_hash (snd (percpu_hash_benchmark source_config env s)))
           (unat (smp_processor_id env)) (map_key env) =
         Some (case bpf_percpu_hash_lookup (percpu_hash s) (unat (smp_processor_id env))
                      (map_key env) of
                 None \<Rightarrow> 1
               | Some v \<Rightarrow> v + 1)"
proof (cases "map_of (percpu_hash s) (map_key env)")
  case None
  from assms have "length (percpu_hash s) \<le> 256"
    by (simp add: mapops_inv_def keys_ok_length)
  then have "\<not> percpu_hash_max_entries source_config \<le> length (percpu_hash s)"
    by (simp add: source_config_def)
  with None show ?thesis
    by (simp add: percpu_hash_benchmark_def record_latency_maps Let_def
        bpf_percpu_hash_lookup_def bpf_percpu_hash_update_def update_conv')
next
  case (Some f)
  then show ?thesis
    by (simp add: percpu_hash_benchmark_def record_latency_maps Let_def
        bpf_percpu_hash_lookup_def map_of_map_entry)
qed

theorem percpu_hash_first_touch_witness:
  "mapops_inv mapops_init \<and>
   bpf_percpu_hash_lookup (percpu_hash mapops_init) 0 3 = None \<and>
   bpf_percpu_hash_lookup
     (percpu_hash (snd (percpu_hash_benchmark source_config (example_env 3) mapops_init))) 0 3
     = Some 1 \<and>
   bpf_percpu_hash_lookup
     (percpu_hash (snd (percpu_hash_benchmark source_config (example_env 3)
        (snd (percpu_hash_benchmark source_config (example_env 3) mapops_init))))) 0 3
     = Some 2"
proof -
  let ?s1 = "snd (percpu_hash_benchmark source_config (example_env 3) mapops_init)"
  have k: "map_key (example_env 3) = 3" "unat (smp_processor_id (example_env 3)) = 0"
    by (simp_all add: example_env_def map_key_def)
  have miss: "bpf_percpu_hash_lookup (percpu_hash mapops_init) 0 3 = None"
    by (simp add: mapops_init_def bpf_percpu_hash_lookup_def)
  have one: "bpf_percpu_hash_lookup (percpu_hash ?s1) 0 3 = Some 1"
    using percpu_hash_first_touch [OF mapops_inv_init, of "example_env 3"]
    by (simp add: k miss)
  have "mapops_inv ?s1"
    using mapops_inv_on_event [OF mapops_inv_init, of Percpu_hash_benchmark] by simp
  from percpu_hash_first_touch [OF this, of "example_env 3"]
  have "bpf_percpu_hash_lookup
     (percpu_hash (snd (percpu_hash_benchmark source_config (example_env 3) ?s1))) 0 3 = Some 2"
    by (simp add: k one)
  with miss one mapops_inv_init show ?thesis by simp
qed

section \<open>A failed reservation\<close>

lemma ringbuf_reserve_none:
  assumes "bpf_ringbuf_reserve RINGBUF_EVENTS_MAX_ENTRIES (ringbuf_state.ringbuf_events s) sizeof_event = None"
  shows "ringbuf_on_event p env s = (1, s)"
  using assms
  by (cases p) (simp_all add: kprobe_openat_def tracepoint_openat_def raw_tracepoint_handler_def)

lemma record_latency_none:
  assumes "bpf_ringbuf_reserve (ringbuf_events_max_entries cfg) (ringbuf_events s) sizeof_latency_event = None"
  shows "record_latency cfg env a b op s = (1, s)"
  using assms by (simp add: record_latency_def)

text \<open>
  C1 (amended). When the reservation returns no slot, every ring buffer producer returns 1
  and publishes nothing. The three throughput producers and \<open>hash_map_lookup\<close> return
  with the state they were called in: no counter records the drop. The other four map
  producers have written their map before they reserve, and that write stays: each returns
  the state it was called in with its one map write applied, the update of the key for
  \<open>hash_map_update_cb\<close>, the increment of the slot for the two array producers, and the
  first touch or the increment for the per-CPU hash producer.
\<close>

theorem reserve_failure_short_circuit:
  "(bpf_ringbuf_reserve RINGBUF_EVENTS_MAX_ENTRIES (ringbuf_state.ringbuf_events s) sizeof_event = None \<longrightarrow>
      ringbuf_on_event p env s = (1, s)) \<and>
   (bpf_ringbuf_reserve (ringbuf_events_max_entries cfg) (ringbuf_events t) sizeof_latency_event = None \<longrightarrow>
      hash_map_lookup cfg env t = (1, t) \<and>
      hash_map_update_cb cfg env t =
        (1, t\<lparr>hash_map :=
               snd (bpf_hash_update (hash_map_max_entries cfg) (hash_map t) (map_key env)
                      (ktime_ns env 0))\<rparr>) \<and>
      array_map_benchmark cfg env t =
        (1, case bpf_array_lookup (array_map_max_entries cfg) (array_map t) (map_key env) of
              Some v \<Rightarrow> t\<lparr>array_map := (array_map t)(unat (map_key env) := v + 1)\<rparr>
            | None \<Rightarrow> t) \<and>
      percpu_array_benchmark cfg env t =
        (1, case bpf_array_lookup (percpu_array_max_entries cfg)
                   (percpu_array t (unat (smp_processor_id env))) (map_key env) of
              Some v \<Rightarrow>
                t\<lparr>percpu_array := (percpu_array t)
                     (unat (smp_processor_id env) :=
                        (percpu_array t (unat (smp_processor_id env)))
                          (unat (map_key env) := v + 1))\<rparr>
            | None \<Rightarrow> t) \<and>
      percpu_hash_benchmark cfg env t =
        (1, case bpf_percpu_hash_lookup (percpu_hash t) (unat (smp_processor_id env))
                   (map_key env) of
              None \<Rightarrow>
                t\<lparr>percpu_hash :=
                     snd (bpf_percpu_hash_update (percpu_hash_max_entries cfg) (percpu_hash t)
                            (unat (smp_processor_id env)) (map_key env) 1)\<rparr>
            | Some v \<Rightarrow>
                t\<lparr>percpu_hash :=
                     AList.map_entry (map_key env)
                       (\<lambda>f. f(unat (smp_processor_id env) := v + 1)) (percpu_hash t)\<rparr>) \<and>
      fst (map_on_event q cfg env t) = 1 \<and>
      ringbuf_events (snd (map_on_event q cfg env t)) = ringbuf_events t)"
proof (intro conjI impI)
  assume "bpf_ringbuf_reserve RINGBUF_EVENTS_MAX_ENTRIES (ringbuf_state.ringbuf_events s) sizeof_event = None"
  then show "ringbuf_on_event p env s = (1, s)"
    by (rule ringbuf_reserve_none)
next
  assume full: "bpf_ringbuf_reserve (ringbuf_events_max_entries cfg) (ringbuf_events t) sizeof_latency_event = None"
  then show "hash_map_lookup cfg env t = (1, t)"
    by (simp add: hash_map_lookup_def record_latency_none)
  from full show "hash_map_update_cb cfg env t =
        (1, t\<lparr>hash_map :=
               snd (bpf_hash_update (hash_map_max_entries cfg) (hash_map t) (map_key env)
                      (ktime_ns env 0))\<rparr>)"
    by (simp add: hash_map_update_cb_def record_latency_none Let_def)
  from full show "array_map_benchmark cfg env t =
        (1, case bpf_array_lookup (array_map_max_entries cfg) (array_map t) (map_key env) of
              Some v \<Rightarrow> t\<lparr>array_map := (array_map t)(unat (map_key env) := v + 1)\<rparr>
            | None \<Rightarrow> t)"
    by (simp add: array_map_benchmark_def record_latency_none Let_def split: option.split)
  from full show "percpu_array_benchmark cfg env t =
        (1, case bpf_array_lookup (percpu_array_max_entries cfg)
                   (percpu_array t (unat (smp_processor_id env))) (map_key env) of
              Some v \<Rightarrow>
                t\<lparr>percpu_array := (percpu_array t)
                     (unat (smp_processor_id env) :=
                        (percpu_array t (unat (smp_processor_id env)))
                          (unat (map_key env) := v + 1))\<rparr>
            | None \<Rightarrow> t)"
    by (simp add: percpu_array_benchmark_def record_latency_none Let_def split: option.split)
  from full show "percpu_hash_benchmark cfg env t =
        (1, case bpf_percpu_hash_lookup (percpu_hash t) (unat (smp_processor_id env))
                   (map_key env) of
              None \<Rightarrow>
                t\<lparr>percpu_hash :=
                     snd (bpf_percpu_hash_update (percpu_hash_max_entries cfg) (percpu_hash t)
                            (unat (smp_processor_id env)) (map_key env) 1)\<rparr>
            | Some v \<Rightarrow>
                t\<lparr>percpu_hash :=
                     AList.map_entry (map_key env)
                       (\<lambda>f. f(unat (smp_processor_id env) := v + 1)) (percpu_hash t)\<rparr>)"
    by (simp add: percpu_hash_benchmark_def record_latency_none Let_def split: option.split)
  from full show "fst (map_on_event q cfg env t) = 1"
    by (cases q)
      (simp_all add: hash_map_lookup_def hash_map_update_cb_def array_map_benchmark_def
        percpu_array_benchmark_def percpu_hash_benchmark_def record_latency_none Let_def
        split: option.split)
  from full show "ringbuf_events (snd (map_on_event q cfg env t)) = ringbuf_events t"
    by (cases q)
      (simp_all add: hash_map_lookup_def hash_map_update_cb_def array_map_benchmark_def
        percpu_array_benchmark_def percpu_hash_benchmark_def record_latency_none Let_def
        split: option.split)
qed

theorem reserve_failure_short_circuit_witness:
  "bpf_ringbuf_reserve RINGBUF_EVENTS_MAX_ENTRIES (ringbuf_state.ringbuf_events ringbuf_full) sizeof_event = None \<and>
   ringbuf_on_event Tracepoint_openat (example_env 3) ringbuf_full = (1, ringbuf_full) \<and>
   bpf_ringbuf_reserve (ringbuf_events_max_entries source_config) (ringbuf_events mapops_full) sizeof_latency_event = None \<and>
   hash_map_lookup source_config (example_env 3) mapops_full = (1, mapops_full) \<and>
   hash_map_update_cb source_config (example_env 3) mapops_full =
     (1, mapops_full\<lparr>hash_map := [(3, 10)]\<rparr>) \<and>
   array_map_benchmark source_config (example_env 3) mapops_full =
     (1, mapops_full\<lparr>array_map := (\<lambda>_. 0)(3 := 1)\<rparr>) \<and>
   percpu_array_benchmark source_config (example_env 3) mapops_full =
     (1, mapops_full\<lparr>percpu_array := (\<lambda>_ _. 0)(0 := (\<lambda>_. 0)(3 := 1))\<rparr>) \<and>
   percpu_hash_benchmark source_config (example_env 3) mapops_full =
     (1, mapops_full\<lparr>percpu_hash := [(3, (\<lambda>_. 0)(0 := 1))]\<rparr>) \<and>
   fst (map_on_event Array_map_benchmark source_config (example_env 3) mapops_full) = 1 \<and>
   ringbuf_events (snd (map_on_event Array_map_benchmark source_config (example_env 3) mapops_full)) = ringbuf_events mapops_full"
proof -
  have a: "bpf_ringbuf_reserve RINGBUF_EVENTS_MAX_ENTRIES (ringbuf_state.ringbuf_events ringbuf_full) sizeof_event = None"
    by (simp add: bpf_ringbuf_reserve_def BPF_RINGBUF_HDR_SZ_def Let_def ringbuf_full_def
        sizeof_event_def)
  have b: "bpf_ringbuf_reserve (ringbuf_events_max_entries source_config) (ringbuf_events mapops_full) sizeof_latency_event = None"
    by (simp add: bpf_ringbuf_reserve_def BPF_RINGBUF_HDR_SZ_def Let_def mapops_full_def
        sizeof_latency_event_def)
  have k: "map_key (example_env 3) = 3" "unat (smp_processor_id (example_env 3)) = 0"
    "ktime_ns (example_env 3) 0 = 10"
    by (simp_all add: map_key_def example_env_def)
  have m: "hash_map mapops_full = []" "array_map mapops_full = (\<lambda>_. 0)"
    "percpu_array mapops_full = (\<lambda>_ _. 0)" "percpu_hash mapops_full = []"
    by (simp_all add: mapops_full_def mapops_init_def)
  have c: "array_map_max_entries source_config = 256"
    "percpu_array_max_entries source_config = 256"
    "percpu_hash_max_entries source_config = 1024"
    "hash_map_max_entries source_config = 10240"
    by (simp_all add: source_config_def)
  from reserve_failure_short_circuit
      [of ringbuf_full Tracepoint_openat "example_env 3" source_config mapops_full
        Array_map_benchmark] a b
  show ?thesis
    by (simp add: k m c bpf_hash_update_def bpf_array_lookup_def bpf_percpu_hash_lookup_def
        bpf_percpu_hash_update_def)
qed

text \<open>
  The claim as stated fails with a full ring buffer: the kprobe producer returns with every
  counter as it was, so nothing records the drop, and the hash update producer returns
  with a hash map that has gained the key 3.
\<close>

theorem reserve_failure_counterexample:
  "bpf_ringbuf_reserve RINGBUF_EVENTS_MAX_ENTRIES (ringbuf_state.ringbuf_events ringbuf_full) sizeof_event = None \<and>
   kprobe_openat (example_env 3) ringbuf_full = (1, ringbuf_full) \<and>
   bpf_ringbuf_reserve (ringbuf_events_max_entries source_config) (ringbuf_events mapops_full) sizeof_latency_event = None \<and>
   hash_map mapops_full = [] \<and>
   hash_map (snd (hash_map_update_cb source_config (example_env 3) mapops_full)) = [(3, 10)]"
  by (simp add: bpf_ringbuf_reserve_def BPF_RINGBUF_HDR_SZ_def Let_def ringbuf_full_def sizeof_event_def kprobe_openat_def
      mapops_full_def mapops_init_def sizeof_latency_event_def source_config_def
      hash_map_update_cb_def record_latency_def bpf_hash_update_def map_key_def example_env_def
      RINGBUF_EVENTS_MAX_ENTRIES_def)

section \<open>The perf buffer producers\<close>

lemma fst_perfbuf_on_event: "fst (perfbuf_on_event p env s) = 0"
  by (cases p) (simp_all add: kprobe_perf_def tracepoint_perf_def raw_tracepoint_perf_def Let_def)

lemma counters_perfbuf_on_event:
  "perfbuf_state.counters (snd (perfbuf_on_event p env (s\<lparr>perf_events := b\<rparr>))) =
   perfbuf_state.counters (snd (perfbuf_on_event p env s))"
  by (cases p) (simp_all add: kprobe_perf_def tracepoint_perf_def raw_tracepoint_perf_def Let_def)

text \<open>
  C5. A perf buffer producer never reserves: \<open>kprobe_perf\<close> and \<open>tracepoint_perf\<close> hand
  their event to the output helper in every invocation and do not read its result. Every
  producer of the file returns 0, and neither the result code nor the counters depend on
  the buffers, so no lack of room is signalled to the producer.
\<close>

theorem perf_output_unconditional:
  "fst (perfbuf_on_event p env s) = 0 \<and>
   fst (perfbuf_on_event p env (s\<lparr>perf_events := b\<rparr>)) = fst (perfbuf_on_event p env s) \<and>
   perfbuf_state.counters (snd (perfbuf_on_event p env (s\<lparr>perf_events := b\<rparr>))) =
     perfbuf_state.counters (snd (perfbuf_on_event p env s)) \<and>
   perf_events (snd (kprobe_perf env s)) =
     snd (bpf_perf_event_output PERF_EVENTS_MAX_ENTRIES (perf_events s)
            (unat (smp_processor_id env))
            \<lparr>timestamp = ktime_ns env 0,
             pid = ucast (drop_bit 32 (current_uid_gid env)),
             cpu_id = smp_processor_id env,
             event_type = EVENT_TYPE_KPROBE,
             data = ucast (regs_parm1 env)\<rparr>) \<and>
   perf_events (snd (tracepoint_perf env s)) =
     snd (bpf_perf_event_output PERF_EVENTS_MAX_ENTRIES (perf_events s)
            (unat (smp_processor_id env))
            \<lparr>timestamp = ktime_ns env 0,
             pid = ucast (drop_bit 32 (current_uid_gid env)),
             cpu_id = smp_processor_id env,
             event_type = EVENT_TYPE_TRACEPOINT,
             data = ucast (ctx_args env 1)\<rparr>)"
  by (simp add: fst_perfbuf_on_event counters_perfbuf_on_event)
    (simp add: kprobe_perf_def tracepoint_perf_def Let_def)

theorem perf_output_unconditional_witness:
  "fst (bpf_perf_event_output PERF_EVENTS_MAX_ENTRIES (perf_events (perfbuf_init 0)) 0
          \<lparr>timestamp = 10, pid = 1000, cpu_id = 0, event_type = EVENT_TYPE_KPROBE, data = 7\<rparr>)
     = - ENOSPC \<and>
   fst (perfbuf_on_event Kprobe_perf (example_env 3) (perfbuf_init 0)) = 0 \<and>
   fst (perfbuf_on_event Kprobe_perf (example_env 3) (perfbuf_init 8)) = 0 \<and>
   perfbuf_state.counters (snd (perfbuf_on_event Kprobe_perf (example_env 3) (perfbuf_init 0))) 0 = 1"
  using perf_output_unconditional [of Kprobe_perf "example_env 3" "perfbuf_init 0" "perf_events (perfbuf_init 8)"]
  by (simp add: perfbuf_init_def bpf_perf_event_output_def PERF_EVENTS_MAX_ENTRIES_def
      kprobe_perf_def update_counter_def bpf_array_lookup_def COUNTERS_MAX_ENTRIES_def Let_def)

section \<open>The counters array\<close>

lemma update_counter_other: "i \<noteq> unat k \<Longrightarrow> update_counter cs k i = cs i"
  by (simp add: update_counter_def split: option.split)

text \<open>
  C9. A throughput producer leaves every counter slot but its own as it was: slot 0 belongs
  to the kprobe producers, slot 1 to the static tracepoint producers and slot 2 to the raw
  tracepoint producers, of the ring buffer file and of the perf buffer file alike.
\<close>

theorem counters_frame:
  "(i \<noteq> 0 \<longrightarrow>
      ringbuf_state.counters (snd (kprobe_openat env s)) i = ringbuf_state.counters s i \<and>
      perfbuf_state.counters (snd (kprobe_perf env t)) i = perfbuf_state.counters t i) \<and>
   (i \<noteq> 1 \<longrightarrow>
      ringbuf_state.counters (snd (tracepoint_openat env s)) i = ringbuf_state.counters s i \<and>
      perfbuf_state.counters (snd (tracepoint_perf env t)) i = perfbuf_state.counters t i) \<and>
   (i \<noteq> 2 \<longrightarrow>
      ringbuf_state.counters (snd (raw_tracepoint_handler env s)) i = ringbuf_state.counters s i \<and>
      perfbuf_state.counters (snd (raw_tracepoint_perf env t)) i = perfbuf_state.counters t i)"
  by (simp add: kprobe_openat_def tracepoint_openat_def raw_tracepoint_handler_def
      kprobe_perf_def tracepoint_perf_def raw_tracepoint_perf_def Let_def update_counter_other
      split: option.split)

theorem counters_frame_witness:
  "(3 :: nat) \<noteq> 0 \<and>
   ringbuf_state.counters (snd (kprobe_openat (example_env 3) ringbuf_init)) 3 = 0 \<and>
   ringbuf_state.counters (snd (kprobe_openat (example_env 3) ringbuf_init)) 0 = 1 \<and>
   perfbuf_state.counters (snd (raw_tracepoint_perf (example_env 3) (perfbuf_init 8))) 3 = 0 \<and>
   perfbuf_state.counters (snd (raw_tracepoint_perf (example_env 3) (perfbuf_init 8))) 2 = 1"
  using counters_frame [of 3 "example_env 3" ringbuf_init "perfbuf_init 8"]
  by (simp add: ringbuf_init_def perfbuf_init_def kprobe_openat_def raw_tracepoint_perf_def
      bpf_ringbuf_reserve_def BPF_RINGBUF_HDR_SZ_def Let_def bpf_ringbuf_submit_def sizeof_event_def
      RINGBUF_EVENTS_MAX_ENTRIES_def update_counter_def bpf_array_lookup_def
      COUNTERS_MAX_ENTRIES_def Let_def)

section \<open>Event types\<close>

lemma ringbuf_reserve_some:
  assumes "bpf_ringbuf_reserve RINGBUF_EVENTS_MAX_ENTRIES (ringbuf_state.ringbuf_events s) sizeof_event = Some rb"
  shows "rb_committed rb = rb_committed (ringbuf_state.ringbuf_events s)"
  using assms by (auto simp: bpf_ringbuf_reserve_def BPF_RINGBUF_HDR_SZ_def Let_def split: if_splits)

text \<open>
  C6 (amended). An event that a producer publishes carries \<open>EVENT_TYPE_KPROBE\<close> when the
  producer is a kprobe one and \<open>EVENT_TYPE_TRACEPOINT\<close> when it is a static tracepoint or
  a raw tracepoint one: the header has no type of its own for raw tracepoints.
\<close>

theorem event_type_by_hook:
  "(bpf_ringbuf_reserve RINGBUF_EVENTS_MAX_ENTRIES (ringbuf_state.ringbuf_events s) sizeof_event \<noteq> None \<longrightarrow>
      map event.event_type
        (rb_committed (ringbuf_state.ringbuf_events (snd (ringbuf_on_event p env s)))) =
      map event.event_type (rb_committed (ringbuf_state.ringbuf_events s)) @
        [case p of
           Kprobe_openat \<Rightarrow> EVENT_TYPE_KPROBE
         | Tracepoint_openat \<Rightarrow> EVENT_TYPE_TRACEPOINT
         | Raw_tracepoint_handler \<Rightarrow> EVENT_TYPE_TRACEPOINT]) \<and>
   (fst (bpf_perf_event_output PERF_EVENTS_MAX_ENTRIES (perf_events t) (unat (smp_processor_id env)) ev) = 0 \<longrightarrow>
      map benchmark_perf_event.event_type
        (pb_records (perf_events (snd (kprobe_perf env t)) (unat (smp_processor_id env)))) =
      map benchmark_perf_event.event_type
        (pb_records (perf_events t (unat (smp_processor_id env)))) @ [EVENT_TYPE_KPROBE] \<and>
      map benchmark_perf_event.event_type
        (pb_records (perf_events (snd (tracepoint_perf env t)) (unat (smp_processor_id env)))) =
      map benchmark_perf_event.event_type
        (pb_records (perf_events t (unat (smp_processor_id env)))) @ [EVENT_TYPE_TRACEPOINT])"
proof (intro conjI impI)
  assume "bpf_ringbuf_reserve RINGBUF_EVENTS_MAX_ENTRIES (ringbuf_state.ringbuf_events s) sizeof_event \<noteq> None"
  then obtain rb where rb: "bpf_ringbuf_reserve RINGBUF_EVENTS_MAX_ENTRIES (ringbuf_state.ringbuf_events s) sizeof_event = Some rb"
    by blast
  note c = ringbuf_reserve_some [OF rb]
  show "map event.event_type
        (rb_committed (ringbuf_state.ringbuf_events (snd (ringbuf_on_event p env s)))) =
      map event.event_type (rb_committed (ringbuf_state.ringbuf_events s)) @
        [case p of
           Kprobe_openat \<Rightarrow> EVENT_TYPE_KPROBE
         | Tracepoint_openat \<Rightarrow> EVENT_TYPE_TRACEPOINT
         | Raw_tracepoint_handler \<Rightarrow> EVENT_TYPE_TRACEPOINT]"
    by (cases p)
      (simp_all add: kprobe_openat_def tracepoint_openat_def raw_tracepoint_handler_def rb c
        bpf_ringbuf_submit_def Let_def)
next
  assume ok: "fst (bpf_perf_event_output PERF_EVENTS_MAX_ENTRIES (perf_events t) (unat (smp_processor_id env)) ev) = 0"
  then have room: "\<not> PERF_EVENTS_MAX_ENTRIES \<le> unat (smp_processor_id env)"
    "\<not> pb_capacity (perf_events t (unat (smp_processor_id env)))
        \<le> length (pb_records (perf_events t (unat (smp_processor_id env))))"
    by (auto simp: bpf_perf_event_output_def E2BIG_def ENOSPC_def split: if_splits)
  show "map benchmark_perf_event.event_type
        (pb_records (perf_events (snd (kprobe_perf env t)) (unat (smp_processor_id env)))) =
      map benchmark_perf_event.event_type
        (pb_records (perf_events t (unat (smp_processor_id env)))) @ [EVENT_TYPE_KPROBE]"
    using room by (simp add: kprobe_perf_def bpf_perf_event_output_def Let_def)
  show "map benchmark_perf_event.event_type
        (pb_records (perf_events (snd (tracepoint_perf env t)) (unat (smp_processor_id env)))) =
      map benchmark_perf_event.event_type
        (pb_records (perf_events t (unat (smp_processor_id env)))) @ [EVENT_TYPE_TRACEPOINT]"
    using room by (simp add: tracepoint_perf_def bpf_perf_event_output_def Let_def)
qed

theorem event_type_by_hook_witness:
  "bpf_ringbuf_reserve RINGBUF_EVENTS_MAX_ENTRIES (ringbuf_state.ringbuf_events ringbuf_init) sizeof_event \<noteq> None \<and>
   map event.event_type
     (rb_committed (ringbuf_state.ringbuf_events
        (snd (ringbuf_on_event Kprobe_openat (example_env 3) ringbuf_init)))) = [1] \<and>
   fst (bpf_perf_event_output PERF_EVENTS_MAX_ENTRIES (perf_events (perfbuf_init 8)) 0
          \<lparr>timestamp = 0, pid = 0, cpu_id = 0, event_type = 0, data = 0\<rparr>) = 0 \<and>
   map benchmark_perf_event.event_type
     (pb_records (perf_events (snd (tracepoint_perf (example_env 3) (perfbuf_init 8))) 0)) = [2]"
proof -
  have a: "bpf_ringbuf_reserve RINGBUF_EVENTS_MAX_ENTRIES (ringbuf_state.ringbuf_events ringbuf_init) sizeof_event \<noteq> None"
    by (simp add: bpf_ringbuf_reserve_def BPF_RINGBUF_HDR_SZ_def Let_def ringbuf_init_def sizeof_event_def
        RINGBUF_EVENTS_MAX_ENTRIES_def)
  have b: "fst (bpf_perf_event_output PERF_EVENTS_MAX_ENTRIES (perf_events (perfbuf_init 8)) 0
          \<lparr>timestamp = 0, pid = 0, cpu_id = 0, event_type = 0, data = 0\<rparr>) = 0"
    by (simp add: bpf_perf_event_output_def perfbuf_init_def PERF_EVENTS_MAX_ENTRIES_def)
  have c: "unat (smp_processor_id (example_env 3)) = 0"
    by (simp add: example_env_def)
  show ?thesis
    using event_type_by_hook [of ringbuf_init Kprobe_openat "example_env 3" "perfbuf_init 8"
        "\<lparr>timestamp = 0, pid = 0, cpu_id = 0, event_type = 0, data = 0\<rparr>"] a b
    by (simp add: c EVENT_TYPE_KPROBE_def EVENT_TYPE_TRACEPOINT_def)
      (simp add: ringbuf_init_def perfbuf_init_def)
qed

text \<open>
  The claim as stated fails: the event of the raw tracepoint producer and the event of the
  static tracepoint producer carry the same type, 2.
\<close>

theorem event_type_counterexample:
  "map event.event_type
     (rb_committed (ringbuf_state.ringbuf_events
        (snd (raw_tracepoint_handler (example_env 3) ringbuf_init)))) = [2] \<and>
   map event.event_type
     (rb_committed (ringbuf_state.ringbuf_events
        (snd (tracepoint_openat (example_env 3) ringbuf_init)))) = [2] \<and>
   EVENT_TYPE_TRACEPOINT = 2"
  by (simp add: raw_tracepoint_handler_def tracepoint_openat_def ringbuf_init_def
      bpf_ringbuf_reserve_def BPF_RINGBUF_HDR_SZ_def Let_def bpf_ringbuf_submit_def sizeof_event_def
      RINGBUF_EVENTS_MAX_ENTRIES_def EVENT_TYPE_TRACEPOINT_def Let_def)

section \<open>The key stays in range\<close>

lemma hash_update_ok:
  assumes "keys_ok m" and "256 < n"
  shows "fst (bpf_hash_update n m k v) = 0"
  using keys_ok_length [OF assms(1)] assms(2) by (simp add: bpf_hash_update_def)

lemma percpu_hash_update_ok:
  assumes "keys_ok m" and "256 < n"
  shows "fst (bpf_percpu_hash_update n m cpu k v) = 0"
  using keys_ok_length [OF assms(1)] assms(2)
  by (simp add: bpf_percpu_hash_update_def split: option.split)

lemma array_map_benchmark_effect:
  "array_map (snd (array_map_benchmark source_config env s)) =
     (array_map s)(unat (map_key env) := array_map s (unat (map_key env)) + 1)"
  using unat_map_key [of env]
  by (simp add: array_map_benchmark_def record_latency_maps bpf_array_lookup_def
      source_config_def Let_def)

lemma percpu_array_benchmark_effect:
  "percpu_array (snd (percpu_array_benchmark source_config env s)) (unat (smp_processor_id env)) =
     (percpu_array s (unat (smp_processor_id env)))
       (unat (map_key env) := percpu_array s (unat (smp_processor_id env)) (unat (map_key env)) + 1)"
  using unat_map_key [of env]
  by (simp add: percpu_array_benchmark_def record_latency_maps bpf_array_lookup_def
      source_config_def Let_def)

lemma hash_map_update_effect:
  assumes "mapops_inv s"
  shows "hash_map (snd (hash_map_update_cb source_config env s)) =
     AList.update (map_key env) (ktime_ns env 0) (hash_map s)"
proof -
  from assms have "length (hash_map s) \<le> 256"
    by (simp add: mapops_inv_def keys_ok_length)
  then show ?thesis
    by (simp add: hash_map_update_cb_def record_latency_maps bpf_hash_update_def
        source_config_def Let_def)
qed

text \<open>
  C8. The key of a map producer is the process identifier masked with \<open>0xFF\<close>: it is at
  most 255 and below the declared capacity of each of the four maps. A lookup in either
  array map therefore finds its slot, so that both array producers increment the slot of
  their key in every invocation; and in every state that the callbacks reach, an update
  of either hash map is accepted, so that the hash update producer stores its value.
\<close>

theorem map_key_in_range:
  "map_key env = ucast (drop_bit 32 (current_pid_uid env)) AND 0xFF \<and>
   unat (map_key env) \<le> 255 \<and>
   unat (map_key env) < array_map_max_entries source_config \<and>
   unat (map_key env) < percpu_array_max_entries source_config \<and>
   unat (map_key env) < percpu_hash_max_entries source_config \<and>
   unat (map_key env) < hash_map_max_entries source_config \<and>
   bpf_array_lookup (array_map_max_entries source_config) a (map_key env) =
     Some (a (unat (map_key env))) \<and>
   bpf_array_lookup (percpu_array_max_entries source_config) a (map_key env) =
     Some (a (unat (map_key env))) \<and>
   array_map (snd (array_map_benchmark source_config env s)) =
     (array_map s)(unat (map_key env) := array_map s (unat (map_key env)) + 1) \<and>
   percpu_array (snd (percpu_array_benchmark source_config env s)) (unat (smp_processor_id env)) =
     (percpu_array s (unat (smp_processor_id env)))
       (unat (map_key env) :=
          percpu_array s (unat (smp_processor_id env)) (unat (map_key env)) + 1) \<and>
   (mapops_inv s \<longrightarrow>
      fst (bpf_hash_update (hash_map_max_entries source_config) (hash_map s) (map_key env) v) = 0 \<and>
      fst (bpf_percpu_hash_update (percpu_hash_max_entries source_config) (percpu_hash s) cpu
             (map_key env) v') = 0 \<and>
      hash_map (snd (hash_map_update_cb source_config env s)) =
        AList.update (map_key env) (ktime_ns env 0) (hash_map s))"
proof -
  have bounds:
    "unat (map_key env) < array_map_max_entries source_config"
    "unat (map_key env) < percpu_array_max_entries source_config"
    "unat (map_key env) < percpu_hash_max_entries source_config"
    "unat (map_key env) < hash_map_max_entries source_config"
    using unat_map_key [of env] by (simp_all add: source_config_def)
  have capacities:
    "256 < hash_map_max_entries source_config" "256 < percpu_hash_max_entries source_config"
    by (simp_all add: source_config_def)
  have accepted:
    "fst (bpf_hash_update (hash_map_max_entries source_config) (hash_map s) (map_key env) v) = 0"
    "fst (bpf_percpu_hash_update (percpu_hash_max_entries source_config) (percpu_hash s) cpu
            (map_key env) v') = 0"
    if "mapops_inv s"
    using that capacities
    by (simp_all add: mapops_inv_def hash_update_ok percpu_hash_update_ok)
  show ?thesis
    using bounds accepted unat_map_key [of env]
    by (simp add: map_key_mask [symmetric] bpf_array_lookup_def array_map_benchmark_effect
        percpu_array_benchmark_effect hash_map_update_effect)
qed

theorem map_key_in_range_witness:
  "map_key (example_env 0x1234) = 0x34 \<and>
   bpf_array_lookup (array_map_max_entries source_config) (\<lambda>_. 0) (map_key (example_env 0x1234))
     = Some 0 \<and>
   array_map (snd (array_map_benchmark source_config (example_env 0x1234) mapops_init)) 0x34
     = 1 \<and>
   mapops_inv mapops_init \<and>
   fst (bpf_hash_update (hash_map_max_entries source_config) (hash_map mapops_init)
          (map_key (example_env 0x1234)) 5) = 0 \<and>
   hash_map (snd (hash_map_update_cb source_config (example_env 0x1234) mapops_init))
     = [(0x34, 10)]"
proof -
  have k: "map_key (example_env 0x1234) = 0x34" "ktime_ns (example_env 0x1234) 0 = 10"
    by (simp_all add: map_key_def example_env_def)
  have i: "hash_map mapops_init = []" "array_map mapops_init = (\<lambda>_. 0)"
    by (simp_all add: mapops_init_def)
  show ?thesis
    using map_key_in_range [of "example_env 0x1234" "\<lambda>_. 0" mapops_init 5 0 1] mapops_inv_init
    by (simp add: k i)
qed

section \<open>Timestamps of latency events\<close>

lemma record_latency_committed:
  "rb_committed (ringbuf_events (snd (record_latency cfg env a b op s))) =
     rb_committed (ringbuf_events s) @
       (if bpf_ringbuf_reserve (ringbuf_events_max_entries cfg) (ringbuf_events s)
             sizeof_latency_event = None then []
        else [\<lparr>timestamp_start = a, timestamp_end = b, operation = op,
               pid = ucast (drop_bit 32 (current_pid_uid env))\<rparr>])"
  by (auto simp: record_latency_def bpf_ringbuf_reserve_def BPF_RINGBUF_HDR_SZ_def Let_def bpf_ringbuf_submit_def
      split: option.split if_splits)

lemma map_on_event_committed:
  "\<exists>es. rb_committed (ringbuf_events (snd (map_on_event p cfg env s))) =
          rb_committed (ringbuf_events s) @ es \<and>
        (clock_monotonic env \<longrightarrow> list_all (\<lambda>e. timestamp_start e \<le> timestamp_end e) es)"
  by (cases p)
    (auto simp: hash_map_lookup_def hash_map_update_cb_def array_map_benchmark_def
      percpu_array_benchmark_def percpu_hash_benchmark_def record_latency_committed Let_def
      clock_monotonic_def split: option.split)

text \<open>
  C10. When the clock does not go back between the reads of one invocation, every latency
  event that a map producer submits has a start time no later than its end time.
\<close>

theorem latency_event_ordered:
  assumes "clock_monotonic env"
  shows "rb_committed (ringbuf_events (snd (map_on_event p cfg env s))) =
           rb_committed (ringbuf_events s) @ submitted p cfg env s \<and>
         list_all (\<lambda>e. timestamp_start e \<le> timestamp_end e) (submitted p cfg env s)"
proof -
  from map_on_event_committed [of p cfg env s] assms
  obtain es where es: "rb_committed (ringbuf_events (snd (map_on_event p cfg env s))) =
          rb_committed (ringbuf_events s) @ es"
    and ord: "list_all (\<lambda>e. timestamp_start e \<le> timestamp_end e) es"
    by blast
  from es have "submitted p cfg env s = es"
    by (simp add: submitted_def)
  with es ord show ?thesis by simp
qed

theorem latency_event_ordered_witness:
  "clock_monotonic (example_env 3) \<and>
   submitted Hash_map_update source_config (example_env 3) mapops_init =
     [\<lparr>timestamp_start = 11, timestamp_end = 12, operation = 1, pid = 3\<rparr>] \<and>
   list_all (\<lambda>e. timestamp_start e \<le> timestamp_end e)
     (submitted Hash_map_update source_config (example_env 3) mapops_init)"
proof -
  have m: "clock_monotonic (example_env 3)"
    by (simp add: clock_monotonic_def example_env_def)
  have "submitted Hash_map_update source_config (example_env 3) mapops_init =
     [\<lparr>timestamp_start = 11, timestamp_end = 12, operation = 1, pid = 3\<rparr>]"
    by (simp add: submitted_def hash_map_update_cb_def record_latency_def mapops_init_def
        bpf_ringbuf_reserve_def BPF_RINGBUF_HDR_SZ_def Let_def bpf_ringbuf_submit_def sizeof_latency_event_def
        source_config_def example_env_def Let_def)
  with m latency_event_ordered [OF m, of Hash_map_update source_config mapops_init]
  show ?thesis by simp
qed

section \<open>A hash map of four entries\<close>

lemmas scenario_defs =
  small_config_def source_config_def mapops_init_def example_env_def map_key_def
  hash_map_update_cb_def record_latency_def bpf_hash_update_def bpf_ringbuf_reserve_def BPF_RINGBUF_HDR_SZ_def Let_def
  bpf_ringbuf_submit_def sizeof_latency_event_def E2BIG_def Let_def

lemma four_keys_state_eq:
  "four_keys_state =
     mapops_init
       \<lparr>hash_map := [(0, 10), (1, 10), (2, 10), (3, 10)],
        ringbuf_events :=
          \<lparr>rb_committed =
             [\<lparr>timestamp_start = 11, timestamp_end = 12, operation = 1, pid = 0\<rparr>,
              \<lparr>timestamp_start = 11, timestamp_end = 12, operation = 1, pid = 1\<rparr>,
              \<lparr>timestamp_start = 11, timestamp_end = 12, operation = 1, pid = 2\<rparr>,
              \<lparr>timestamp_start = 11, timestamp_end = 12, operation = 1, pid = 3\<rparr>],
           rb_used = 128\<rparr>\<rparr>"
  by (simp add: four_keys_state_def scenario_defs)

lemma hash_map_update_full:
  assumes "bpf_hash_lookup (hash_map s) (map_key env) = None"
    and "hash_map_max_entries cfg \<le> length (hash_map s)"
  shows "hash_map_update_cb cfg env s =
           record_latency cfg env (ktime_ns env 1) (ktime_ns env 2) 1 s"
  using assms by (simp add: hash_map_update_cb_def bpf_hash_update_def bpf_hash_lookup_def Let_def)

text \<open>
  C4 (amended). With a hash map of four entries, one hash update each by the processes 0
  to 4 leaves the keys 0 to 3 present, each with the one 64-bit value its update wrote,
  and the key 4 absent. All five invocations return 0 and publish their latency event: an
  update of an absent key in a full map does what recording the latency alone does.
\<close>

theorem hash_map_capacity_scenario:
  "(bpf_hash_lookup (hash_map s) (map_key env) = None \<and>
    hash_map_max_entries cfg \<le> length (hash_map s) \<longrightarrow>
      hash_map_update_cb cfg env s =
        record_latency cfg env (ktime_ns env 1) (ktime_ns env 2) 1 s) \<and>
   fst (map_on_events Hash_map_update small_config (map example_env [0, 1, 2, 3, 4]) mapops_init) =
     [0, 0, 0, 0, 0] \<and>
   hash_map (snd (map_on_events Hash_map_update small_config (map example_env [0, 1, 2, 3, 4])
      mapops_init)) = [(0, 10), (1, 10), (2, 10), (3, 10)] \<and>
   bpf_hash_lookup (hash_map (snd (map_on_events Hash_map_update small_config
      (map example_env [0, 1, 2, 3, 4]) mapops_init))) 4 = None \<and>
   map latency_event.pid (rb_committed (ringbuf_events (snd (map_on_events Hash_map_update
      small_config (map example_env [0, 1, 2, 3, 4]) mapops_init)))) = [0, 1, 2, 3, 4]"
proof -
  have "fst (map_on_events Hash_map_update small_config (map example_env [0, 1, 2, 3, 4]) mapops_init) =
     [0, 0, 0, 0, 0] \<and>
   hash_map (snd (map_on_events Hash_map_update small_config (map example_env [0, 1, 2, 3, 4])
      mapops_init)) = [(0, 10), (1, 10), (2, 10), (3, 10)] \<and>
   bpf_hash_lookup (hash_map (snd (map_on_events Hash_map_update small_config
      (map example_env [0, 1, 2, 3, 4]) mapops_init))) 4 = None \<and>
   map latency_event.pid (rb_committed (ringbuf_events (snd (map_on_events Hash_map_update
      small_config (map example_env [0, 1, 2, 3, 4]) mapops_init)))) = [0, 1, 2, 3, 4]"
    by (simp add: scenario_defs bpf_hash_lookup_def)
  then show ?thesis
    using hash_map_update_full [of s env cfg] by blast
qed

theorem hash_map_capacity_scenario_witness:
  "bpf_hash_lookup (hash_map four_keys_state) (map_key (example_env 4)) = None \<and>
   hash_map_max_entries small_config \<le> length (hash_map four_keys_state) \<and>
   hash_map_update_cb small_config (example_env 4) four_keys_state =
     record_latency small_config (example_env 4) 11 12 1 four_keys_state \<and>
   fst (record_latency small_config (example_env 4) 11 12 1 four_keys_state) = 0"
proof -
  have a: "bpf_hash_lookup (hash_map four_keys_state) (map_key (example_env 4)) = None"
    "hash_map_max_entries small_config \<le> length (hash_map four_keys_state)"
    by (simp_all add: four_keys_state_eq bpf_hash_lookup_def map_key_def example_env_def
        small_config_def)
  have b: "ktime_ns (example_env 4) 1 = 11" "ktime_ns (example_env 4) 2 = 12"
    by (simp_all add: example_env_def)
  have c: "fst (record_latency small_config (example_env 4) 11 12 1 four_keys_state) = 0"
    by (simp add: four_keys_state_eq) (simp add: scenario_defs)
  from hash_map_capacity_scenario [of four_keys_state "example_env 4" small_config]
  have "bpf_hash_lookup (hash_map four_keys_state) (map_key (example_env 4)) = None \<and>
      hash_map_max_entries small_config \<le> length (hash_map four_keys_state) \<longrightarrow>
    hash_map_update_cb small_config (example_env 4) four_keys_state =
      record_latency small_config (example_env 4)
        (ktime_ns (example_env 4) 1) (ktime_ns (example_env 4) 2) 1 four_keys_state"
    by (rule conjunct1)
  with a have "hash_map_update_cb small_config (example_env 4) four_keys_state =
      record_latency small_config (example_env 4)
        (ktime_ns (example_env 4) 1) (ktime_ns (example_env 4) 2) 1 four_keys_state"
    by blast
  then have "hash_map_update_cb small_config (example_env 4) four_keys_state =
      record_latency small_config (example_env 4) 11 12 1 four_keys_state"
    by (simp only: b)
  with a c show ?thesis by blast
qed

text \<open>
  The claim as stated fails at the fifth update: the helper rejects the key 4 with
  \<open>- E2BIG\<close>, but the producer returns 0 and the state it returns differs from the state
  it was called in by the published latency event only. Nothing counts the dropped update.
\<close>

theorem hash_map_capacity_counterexample:
  "hash_map four_keys_state = [(0, 10), (1, 10), (2, 10), (3, 10)] \<and>
   bpf_hash_update (hash_map_max_entries small_config) (hash_map four_keys_state)
     (map_key (example_env 4)) 10 = (- E2BIG, hash_map four_keys_state) \<and>
   hash_map_update_cb small_config (example_env 4) four_keys_state =
     (0, four_keys_state\<lparr>ringbuf_events :=
           bpf_ringbuf_submit
             \<lparr>timestamp_start = 11, timestamp_end = 12, operation = 1, pid = 4\<rparr>
             ((ringbuf_events four_keys_state)\<lparr>rb_used := 160\<rparr>)\<rparr>)"
  by (simp add: four_keys_state_eq) (simp add: scenario_defs)

end
